theory Spec2Isabelle
  imports Complex_Main "HOL-Library.Word"
begin

section \<open>JavaScript values\<close>

text \<open>
  A JavaScript string is a sequence of UTF-16 code units; \<open>.length\<close> counts code units.
  The string literals of \<open>App.js\<close> are all ASCII, one code unit per character.
\<close>

type_synonym jsstring = "16 word list"

definition js_lit :: "string \<Rightarrow> jsstring" where
  "js_lit = map of_char"

text \<open>
  \<open>String.prototype.trim\<close> strips the ECMAScript WhiteSpace and LineTerminator code
  points from both ends: TAB, LF, VT, FF, CR, SP, NBSP, the Unicode space separators,
  LS, PS and the byte-order mark. All of them are single code units.
\<close>

definition is_white_space :: "16 word \<Rightarrow> bool" where
  "is_white_space c \<longleftrightarrow>
     c \<in> {0x0009, 0x000A, 0x000B, 0x000C, 0x000D, 0x0020, 0x00A0, 0x1680,
          0x2000, 0x2001, 0x2002, 0x2003, 0x2004, 0x2005, 0x2006, 0x2007,
          0x2008, 0x2009, 0x200A, 0x2028, 0x2029, 0x202F, 0x205F, 0x3000, 0xFEFF}"

definition trim :: "jsstring \<Rightarrow> jsstring" where
  "trim t = rev (dropWhile is_white_space (rev (dropWhile is_white_space t)))"

text \<open>
  The values that \<open>response.json()\<close> produces, and \<open>undefined\<close>, which reading a
  missing property produces. A number is the value of its double; \<open>JSON.parse\<close> never
  yields NaN, and yields an infinity for a literal beyond the double range. \<open>JObj\<close>
  lists the own properties of the parsed object, each name once.
\<close>

datatype jsnum = Finite real | PosInfinity | NegInfinity

datatype jsval =
    JUndefined
  | JNull
  | JBool bool
  | JNum jsnum
  | JStr jsstring
  | JArr "jsval list"
  | JObj "(jsstring \<times> jsval) list"

datatype js_error =
    FetchRejected   \<comment> \<open>the promise of \<open>fetch\<close> rejected: no response arrived\<close>
  | JsonRejected    \<comment> \<open>the promise of \<open>response.json()\<close> rejected: the body is no JSON\<close>
  | TypeError       \<comment> \<open>a property of \<open>null\<close> or \<open>undefined\<close> was read\<close>

text \<open>The operand test of \<open>||\<close>: ToBoolean.\<close>

fun truthy :: "jsval \<Rightarrow> bool" where
  "truthy JUndefined = False"
| "truthy JNull = False"
| "truthy (JBool b) = b"
| "truthy (JNum (Finite r)) = (r \<noteq> 0)"
| "truthy (JNum PosInfinity) = True"
| "truthy (JNum NegInfinity) = True"
| "truthy (JStr s) = (s \<noteq> [])"
| "truthy (JArr xs) = True"
| "truthy (JObj ps) = True"

text \<open>
  The property reads \<open>data.tweets\<close> and \<open>data.error\<close>: a TypeError on \<open>null\<close> and
  \<open>undefined\<close>, the property's value on an object that has it, \<open>undefined\<close> on every
  other value (no prototype defines either name).
\<close>

fun get_prop :: "jsval \<Rightarrow> jsstring \<Rightarrow> js_error + jsval" where
  "get_prop JUndefined k = Inl TypeError"
| "get_prop JNull k = Inl TypeError"
| "get_prop (JObj ps) k = Inr (case map_of ps k of None \<Rightarrow> JUndefined | Some v \<Rightarrow> v)"
| "get_prop (JBool b) k = Inr JUndefined"
| "get_prop (JNum n) k = Inr JUndefined"
| "get_prop (JStr s) k = Inr JUndefined"
| "get_prop (JArr xs) k = Inr JUndefined"

section \<open>The network\<close>

text \<open>
  The four requests of \<open>App.js\<close>: GET \<open>/tweets\<close>, GET \<open>/stats\<close>, POST \<open>/analyze\<close> with
  the body \<open>{text: tweet}\<close>, DELETE \<open>/delete/\<close> followed by \<open>tweetId\<close>.
\<close>

datatype request =
    GET_tweets
  | GET_stats
  | POST_analyze jsstring
  | DELETE_tweet jsval

text \<open>
  What the network answers to one request. \<open>Rejected\<close>: the promise of \<open>fetch\<close> rejects.
  \<open>Responded ok body\<close>: a response arrived, \<open>ok\<close> is \<open>response.ok\<close> (a 2xx status) and
  \<open>body\<close> is what \<open>response.json()\<close> resolves to, \<open>None\<close> when it rejects.
\<close>

datatype fetch_outcome =
    Rejected
  | Responded bool "jsval option"

section \<open>The component state\<close>

text \<open>
  The five \<open>useState\<close> cells of \<open>App\<close> (lines 7 to 11), the requests issued so far
  (oldest first) and the lines written by \<open>console.error\<close> (label and error).
\<close>

record app =
  tweet :: jsstring
  tweets :: jsval
  stats :: jsval
  loading :: bool
  error :: jsval
  calls :: "request list"
  console :: "(jsstring \<times> js_error) list"

definition init :: app where
  "init = \<lparr>tweet = [], tweets = JArr [], stats = JNull, loading = False,
           error = JStr [], calls = [], console = []\<rparr>"

text \<open>What the presentation layer reads.\<close>

definition view :: "app \<Rightarrow> jsstring \<times> jsval \<times> jsval \<times> bool \<times> jsval" where
  "view s = (tweet s, tweets s, stats s, loading s, error s)"

definition console_error :: "string \<Rightarrow> js_error \<Rightarrow> app \<Rightarrow> app" where
  "console_error label e s = s\<lparr>console := console s @ [(js_lit label, e)]\<rparr>"

text \<open>
  An async function runs synchronously up to its first \<open>await\<close> and resumes when the
  awaited promise settles. Each one is modelled by two functions: \<open>f_call\<close>, the part up
  to \<open>await fetch(...)\<close>, which issues the request, and \<open>f_resume\<close>, the rest, given the
  outcome of the request. No state is written between \<open>await fetch(...)\<close> and
  \<open>await response.json()\<close>, so one outcome covers both.
\<close>

datatype progress = Returned app | Awaiting app

section \<open>fetchTweets and fetchStats (lines 19 to 41)\<close>

definition fetchTweets_call :: "app \<Rightarrow> app" where
  "fetchTweets_call s = s\<lparr>calls := calls s @ [GET_tweets]\<rparr>"

definition fetchTweets_resume :: "fetch_outcome \<Rightarrow> app \<Rightarrow> app" where
  "fetchTweets_resume out s =
     (case out of
        Rejected \<Rightarrow> console_error ''Error fetching tweets:'' FetchRejected s
      | Responded ok body \<Rightarrow>
          (case body of
             None \<Rightarrow> console_error ''Error fetching tweets:'' JsonRejected s
           | Some data \<Rightarrow>
               if ok then
                 (case get_prop data (js_lit ''tweets'') of
                    Inl e \<Rightarrow> console_error ''Error fetching tweets:'' e s
                  | Inr v \<Rightarrow> s\<lparr>tweets := v\<rparr>)
               else s))"

definition fetchStats_call :: "app \<Rightarrow> app" where
  "fetchStats_call s = s\<lparr>calls := calls s @ [GET_stats]\<rparr>"

definition fetchStats_resume :: "fetch_outcome \<Rightarrow> app \<Rightarrow> app" where
  "fetchStats_resume out s =
     (case out of
        Rejected \<Rightarrow> console_error ''Error fetching stats:'' FetchRejected s
      | Responded ok body \<Rightarrow>
          (case body of
             None \<Rightarrow> console_error ''Error fetching stats:'' JsonRejected s
           | Some data \<Rightarrow> if ok then s\<lparr>stats := data\<rparr> else s))"

text \<open>
  The statement pair \<open>fetchTweets(); fetchStats();\<close> (lines 15-16, 70-71, 89-90), which
  the specification calls refreshAll. Neither call is awaited: both requests are issued
  at once and the two answers are handled in the order they arrive.
\<close>

definition refreshAll_call :: "app \<Rightarrow> app" where
  "refreshAll_call s = fetchStats_call (fetchTweets_call s)"

datatype arrival = List_first | Stats_first

definition refreshAll :: "arrival \<Rightarrow> fetch_outcome \<Rightarrow> fetch_outcome \<Rightarrow> app \<Rightarrow> app" where
  "refreshAll ord lo so s =
     (case ord of
        List_first \<Rightarrow> fetchStats_resume so (fetchTweets_resume lo (refreshAll_call s))
      | Stats_first \<Rightarrow> fetchTweets_resume lo (fetchStats_resume so (refreshAll_call s)))"

section \<open>analyzeTweet (lines 43 to 80)\<close>

definition analyzeTweet_call :: "app \<Rightarrow> progress" where
  "analyzeTweet_call s =
     (if trim (tweet s) = [] then
        Returned (s\<lparr>error := JStr (js_lit ''Please enter a tweet to analyze'')\<rparr>)
      else if length (tweet s) > 280 then
        Returned (s\<lparr>error := JStr (js_lit ''Tweet must be 280 characters or less'')\<rparr>)
      else
        Awaiting (s\<lparr>loading := True, error := JStr [],
                     calls := calls s @ [POST_analyze (tweet s)]\<rparr>))"

definition analyzeTweet_resume :: "fetch_outcome \<Rightarrow> app \<Rightarrow> app" where
  "analyzeTweet_resume out s =
     (let s' =
        (case out of
           Rejected \<Rightarrow> s\<lparr>error := JStr (js_lit ''Failed to connect to the server'')\<rparr>
         | Responded ok body \<Rightarrow>
             (case body of
                None \<Rightarrow> s\<lparr>error := JStr (js_lit ''Failed to connect to the server'')\<rparr>
              | Some data \<Rightarrow>
                  if ok then
                    fetchStats_call (fetchTweets_call (s\<lparr>tweet := []\<rparr>))
                  else
                    (case get_prop data (js_lit ''error'') of
                       Inl e \<Rightarrow> s\<lparr>error := JStr (js_lit ''Failed to connect to the server'')\<rparr>
                     | Inr v \<Rightarrow>
                         s\<lparr>error := (if truthy v then v
                                      else JStr (js_lit ''Failed to analyze tweet''))\<rparr>)))
      in s'\<lparr>loading := False\<rparr>)"

text \<open>One submission from the click to the end of \<open>finally\<close>, nothing else in between.\<close>

definition analyzeTweet :: "fetch_outcome \<Rightarrow> app \<Rightarrow> app" where
  "analyzeTweet out s =
     (case analyzeTweet_call s of
        Returned s' \<Rightarrow> s'
      | Awaiting s' \<Rightarrow> analyzeTweet_resume out s')"

text \<open>
  The branch of line 68: the request was answered, the body was read, and
  \<open>response.ok\<close> holds.
\<close>

fun analyze_succeeded :: "fetch_outcome \<Rightarrow> bool" where
  "analyze_succeeded Rejected = False"
| "analyze_succeeded (Responded ok body) = (ok \<and> body \<noteq> None)"

section \<open>deleteTweet (lines 82 to 95)\<close>

definition deleteTweet_call :: "jsval \<Rightarrow> app \<Rightarrow> app" where
  "deleteTweet_call tweetId s = s\<lparr>calls := calls s @ [DELETE_tweet tweetId]\<rparr>"

text \<open>The body of the answer is never read here.\<close>

definition deleteTweet_resume :: "fetch_outcome \<Rightarrow> app \<Rightarrow> app" where
  "deleteTweet_resume out s =
     (case out of
        Rejected \<Rightarrow> console_error ''Error deleting tweet:'' FetchRejected s
      | Responded ok body \<Rightarrow> if ok then fetchStats_call (fetchTweets_call s) else s)"

definition deleteTweet :: "jsval \<Rightarrow> fetch_outcome \<Rightarrow> app \<Rightarrow> app" where
  "deleteTweet tweetId out s = deleteTweet_resume out (deleteTweet_call tweetId s)"

text \<open>The branch of line 88.\<close>

fun delete_succeeded :: "fetch_outcome \<Rightarrow> bool" where
  "delete_succeeded Rejected = False"
| "delete_succeeded (Responded ok body) = ok"

section \<open>Facts about the model\<close>

subsection \<open>Trimming and the messages\<close>

text \<open>The trimmed text is empty exactly when every code unit is white space.\<close>

lemma trim_Nil_iff: "trim t = [] \<longleftrightarrow> (\<forall>c\<in>set t. is_white_space c)"
proof
  assume "trim t = []"
  then have "dropWhile is_white_space (rev (dropWhile is_white_space t)) = []"
    by (simp add: trim_def)
  then have all: "\<forall>c\<in>set (dropWhile is_white_space t). is_white_space c"
    by simp
  have "dropWhile is_white_space t = []"
  proof (cases "dropWhile is_white_space t")
    case Nil
    then show ?thesis .
  next
    case (Cons c cs)
    then have "\<not> is_white_space c"
      using hd_dropWhile [of is_white_space t] by simp
    with all Cons show ?thesis by simp
  qed
  then show "\<forall>c\<in>set t. is_white_space c"
    by simp
next
  assume "\<forall>c\<in>set t. is_white_space c"
  then show "trim t = []"
    by (auto simp: trim_def dest: set_dropWhileD)
qed

lemma great_day_valid:
  "trim (tweet (init\<lparr>tweet := js_lit ''Great day!''\<rparr>)) \<noteq> []"
  "length (tweet (init\<lparr>tweet := js_lit ''Great day!''\<rparr>)) \<le> 280"
  by (simp_all add: trim_def js_lit_def is_white_space_def)

subsection \<open>analyzeTweet, step by step\<close>

text \<open>
  The two lemmas on \<open>analyzeTweet_resume\<close> hold in any state, whatever happened
  between the request and its answer.
\<close>

lemma analyzeTweet_invalid_empty:
  "trim (tweet s) = [] \<Longrightarrow>
   analyzeTweet out s = s\<lparr>error := JStr (js_lit ''Please enter a tweet to analyze'')\<rparr>"
  by (simp add: analyzeTweet_def analyzeTweet_call_def)

lemma analyzeTweet_valid:
  "trim (tweet s) \<noteq> [] \<Longrightarrow> length (tweet s) \<le> 280 \<Longrightarrow>
   analyzeTweet out s =
     analyzeTweet_resume out
       (s\<lparr>loading := True, error := JStr [], calls := calls s @ [POST_analyze (tweet s)]\<rparr>)"
  by (simp add: analyzeTweet_def analyzeTweet_call_def)

lemma analyzeTweet_resume_success:
  "analyze_succeeded out \<Longrightarrow>
   analyzeTweet_resume out s =
     s\<lparr>tweet := [], calls := calls s @ [GET_tweets, GET_stats], loading := False\<rparr>"
  by (cases out)
     (auto simp: analyzeTweet_resume_def fetchTweets_call_def fetchStats_call_def)

lemma analyzeTweet_resume_failure_frame:
  "\<not> analyze_succeeded out \<Longrightarrow>
   tweet (analyzeTweet_resume out s) = tweet s \<and>
   tweets (analyzeTweet_resume out s) = tweets s \<and>
   stats (analyzeTweet_resume out s) = stats s \<and>
   calls (analyzeTweet_resume out s) = calls s \<and>
   console (analyzeTweet_resume out s) = console s \<and>
   loading (analyzeTweet_resume out s) = False"
  by (cases out)
     (auto simp: analyzeTweet_resume_def split: option.splits sum.splits)

text \<open>
  A 2xx answer whose body cannot be read is handled by the \<open>catch\<close> clause, like a
  rejected request: \<open>response.json()\<close> is awaited before \<open>response.ok\<close> is tested.
\<close>

lemma analyzeTweet_resume_unreadable:
  "analyzeTweet_resume (Responded ok None) s =
     s\<lparr>error := JStr (js_lit ''Failed to connect to the server''), loading := False\<rparr>"
  by (simp add: analyzeTweet_resume_def)

lemma message_distinct:
  "js_lit ''Please enter a tweet to analyze'' \<noteq> js_lit ''Tweet must be 280 characters or less''"
  "js_lit ''Failed to connect to the server'' \<noteq> js_lit ''Failed to analyze tweet''"
  by (simp_all add: js_lit_def)

subsection \<open>The two fetches\<close>

text \<open>
  Issuing a request writes nothing but \<open>calls\<close>; handling the answer to the List request
  writes nothing but \<open>tweets\<close> and \<open>console\<close>, and the answer to the Stats request
  nothing but \<open>stats\<close> and \<open>console\<close>. What an answer leaves in \<open>tweets\<close> (or in
  \<open>stats\<close>) is either what was there or a value fixed by the answer alone.
\<close>

lemma fetchTweets_call_frame:
  "tweet (fetchTweets_call s) = tweet s" "tweets (fetchTweets_call s) = tweets s"
  "stats (fetchTweets_call s) = stats s" "loading (fetchTweets_call s) = loading s"
  "error (fetchTweets_call s) = error s" "console (fetchTweets_call s) = console s"
  by (simp_all add: fetchTweets_call_def)

lemma fetchStats_call_frame:
  "tweet (fetchStats_call s) = tweet s" "tweets (fetchStats_call s) = tweets s"
  "stats (fetchStats_call s) = stats s" "loading (fetchStats_call s) = loading s"
  "error (fetchStats_call s) = error s" "console (fetchStats_call s) = console s"
  by (simp_all add: fetchStats_call_def)

lemma fetchTweets_resume_frame:
  "tweet (fetchTweets_resume out s) = tweet s" "stats (fetchTweets_resume out s) = stats s"
  "loading (fetchTweets_resume out s) = loading s" "error (fetchTweets_resume out s) = error s"
  "calls (fetchTweets_resume out s) = calls s"
  by (simp_all add: fetchTweets_resume_def console_error_def
        split: fetch_outcome.splits option.splits sum.splits)

lemma fetchStats_resume_frame:
  "tweet (fetchStats_resume out s) = tweet s" "tweets (fetchStats_resume out s) = tweets s"
  "loading (fetchStats_resume out s) = loading s" "error (fetchStats_resume out s) = error s"
  "calls (fetchStats_resume out s) = calls s"
  by (simp_all add: fetchStats_resume_def console_error_def
        split: fetch_outcome.splits option.splits)

lemma fetchTweets_resume_simps:
  "fetchTweets_resume Rejected s =
     s\<lparr>console := console s @ [(js_lit ''Error fetching tweets:'', FetchRejected)]\<rparr>"
  "fetchTweets_resume (Responded ok None) s =
     s\<lparr>console := console s @ [(js_lit ''Error fetching tweets:'', JsonRejected)]\<rparr>"
  "fetchTweets_resume (Responded False (Some d)) s = s"
  "fetchTweets_resume (Responded True (Some d)) s =
     (case get_prop d (js_lit ''tweets'') of
        Inl e \<Rightarrow> s\<lparr>console := console s @ [(js_lit ''Error fetching tweets:'', e)]\<rparr>
      | Inr v \<Rightarrow> s\<lparr>tweets := v\<rparr>)"
  by (simp_all add: fetchTweets_resume_def console_error_def split: sum.splits)

lemma fetchStats_resume_simps:
  "fetchStats_resume Rejected s =
     s\<lparr>console := console s @ [(js_lit ''Error fetching stats:'', FetchRejected)]\<rparr>"
  "fetchStats_resume (Responded ok None) s =
     s\<lparr>console := console s @ [(js_lit ''Error fetching stats:'', JsonRejected)]\<rparr>"
  "fetchStats_resume (Responded False (Some d)) s = s"
  "fetchStats_resume (Responded True (Some d)) s = s\<lparr>stats := d\<rparr>"
  by (simp_all add: fetchStats_resume_def console_error_def)

lemma fetchTweets_resume_tweets:
  "(\<forall>s. tweets (fetchTweets_resume out s) = tweets s) \<or>
   (\<exists>v. \<forall>s. tweets (fetchTweets_resume out s) = v)"
proof (cases out)
  case Rejected
  then show ?thesis by (simp add: fetchTweets_resume_simps)
next
  case (Responded ok body)
  show ?thesis
  proof (cases body)
    case None
    with Responded show ?thesis by (simp add: fetchTweets_resume_simps)
  next
    case (Some d)
    show ?thesis
    proof (cases ok)
      case False
      with Responded Some show ?thesis by (simp add: fetchTweets_resume_simps)
    next
      case True
      with Responded Some show ?thesis
        by (cases "get_prop d (js_lit ''tweets'')") (simp_all add: fetchTweets_resume_simps)
    qed
  qed
qed

lemma fetchStats_resume_stats:
  "(\<forall>s. stats (fetchStats_resume out s) = stats s) \<or>
   (\<exists>v. \<forall>s. stats (fetchStats_resume out s) = v)"
proof (cases out)
  case Rejected
  then show ?thesis by (simp add: fetchStats_resume_simps)
next
  case (Responded ok body)
  then show ?thesis
    by (cases body; cases ok) (simp_all add: fetchStats_resume_simps)
qed

lemma fetchTweets_resume_cong:
  "tweets s1 = tweets s2 \<Longrightarrow>
   tweets (fetchTweets_resume out s1) = tweets (fetchTweets_resume out s2)"
  using fetchTweets_resume_tweets [of out] by auto

lemma fetchStats_resume_cong:
  "stats s1 = stats s2 \<Longrightarrow>
   stats (fetchStats_resume out s1) = stats (fetchStats_resume out s2)"
  using fetchStats_resume_stats [of out] by auto

lemma fetchTweets_resume_again:
  "tweets s' = tweets (fetchTweets_resume out s) \<Longrightarrow>
   tweets (fetchTweets_resume out s') = tweets (fetchTweets_resume out s)"
  using fetchTweets_resume_tweets [of out] by auto

lemma fetchStats_resume_again:
  "stats s' = stats (fetchStats_resume out s) \<Longrightarrow>
   stats (fetchStats_resume out s') = stats (fetchStats_resume out s)"
  using fetchStats_resume_stats [of out] by auto

lemma tweets_refreshAll: "tweets (refreshAll ord lo so s) = tweets (fetchTweets_resume lo s)"
proof -
  have same: "tweets (refreshAll_call s) = tweets s"
    by (simp add: refreshAll_call_def fetchStats_call_frame fetchTweets_call_frame)
  show ?thesis
  proof (cases ord)
    case List_first
    have "tweets (fetchTweets_resume lo (refreshAll_call s)) = tweets (fetchTweets_resume lo s)"
      using same by (rule fetchTweets_resume_cong)
    with List_first show ?thesis
      by (simp add: refreshAll_def fetchStats_resume_frame)
  next
    case Stats_first
    have "tweets (fetchStats_resume so (refreshAll_call s)) = tweets s"
      using same by (simp add: fetchStats_resume_frame)
    then have "tweets (fetchTweets_resume lo (fetchStats_resume so (refreshAll_call s))) =
        tweets (fetchTweets_resume lo s)"
      by (rule fetchTweets_resume_cong)
    with Stats_first show ?thesis
      by (simp add: refreshAll_def)
  qed
qed

lemma stats_refreshAll: "stats (refreshAll ord lo so s) = stats (fetchStats_resume so s)"
proof -
  have same: "stats (refreshAll_call s) = stats s"
    by (simp add: refreshAll_call_def fetchStats_call_frame fetchTweets_call_frame)
  show ?thesis
  proof (cases ord)
    case Stats_first
    have "stats (fetchStats_resume so (refreshAll_call s)) = stats (fetchStats_resume so s)"
      using same by (rule fetchStats_resume_cong)
    with Stats_first show ?thesis
      by (simp add: refreshAll_def fetchTweets_resume_frame)
  next
    case List_first
    have "stats (fetchTweets_resume lo (refreshAll_call s)) = stats s"
      using same by (simp add: fetchTweets_resume_frame)
    then have "stats (fetchStats_resume so (fetchTweets_resume lo (refreshAll_call s))) =
        stats (fetchStats_resume so s)"
      by (rule fetchStats_resume_cong)
    with List_first show ?thesis
      by (simp add: refreshAll_def)
  qed
qed

lemma refreshAll_frame:
  "tweet (refreshAll ord lo so s) = tweet s"
  "loading (refreshAll ord lo so s) = loading s"
  "error (refreshAll ord lo so s) = error s"
  by (cases ord;
      simp add: refreshAll_def refreshAll_call_def fetchTweets_resume_frame
        fetchStats_resume_frame fetchStats_call_frame fetchTweets_call_frame)+

lemma view_refreshAll:
  "view (refreshAll ord lo so s) =
     (tweet s, tweets (fetchTweets_resume lo s), stats (fetchStats_resume so s),
      loading s, error s)"
  by (simp add: view_def tweets_refreshAll stats_refreshAll refreshAll_frame)

section \<open>Submission\<close>

text \<open>
  C1. A submission whose Analyze call succeeds (the service answered with a 2xx status and
  a JSON body) empties the draft, issues the List request and the Stats request once each,
  after the Analyze request and nothing else, and ends with the loading flag false.
\<close>

theorem analyzeTweet_success_refreshes:
  assumes "trim (tweet s) \<noteq> []" and "length (tweet s) \<le> 280"
    and "analyze_succeeded out"
  shows "tweet (analyzeTweet out s) = [] \<and>
         calls (analyzeTweet out s) = calls s @ [POST_analyze (tweet s), GET_tweets, GET_stats] \<and>
         count_list (calls (analyzeTweet out s)) GET_tweets = count_list (calls s) GET_tweets + 1 \<and>
         count_list (calls (analyzeTweet out s)) GET_stats = count_list (calls s) GET_stats + 1 \<and>
         loading (analyzeTweet out s) = False"
  using assms by (simp add: analyzeTweet_valid analyzeTweet_resume_success)

theorem analyzeTweet_success_refreshes_witness:
  "analyze_succeeded (Responded True (Some (JObj []))) \<and>
   tweet (analyzeTweet (Responded True (Some (JObj []))) (init\<lparr>tweet := js_lit ''Great day!''\<rparr>)) = [] \<and>
   calls (analyzeTweet (Responded True (Some (JObj []))) (init\<lparr>tweet := js_lit ''Great day!''\<rparr>))
     = calls init @ [POST_analyze (js_lit ''Great day!''), GET_tweets, GET_stats] \<and>
   count_list (calls (analyzeTweet (Responded True (Some (JObj []))) (init\<lparr>tweet := js_lit ''Great day!''\<rparr>))) GET_tweets
     = count_list (calls init) GET_tweets + 1 \<and>
   count_list (calls (analyzeTweet (Responded True (Some (JObj []))) (init\<lparr>tweet := js_lit ''Great day!''\<rparr>))) GET_stats
     = count_list (calls init) GET_stats + 1 \<and>
   loading (analyzeTweet (Responded True (Some (JObj []))) (init\<lparr>tweet := js_lit ''Great day!''\<rparr>)) = False"
proof -
  have ok: "analyze_succeeded (Responded True (Some (JObj [])))"
    by simp
  from ok analyzeTweet_success_refreshes [OF great_day_valid ok] show ?thesis
    by simp
qed

text \<open>
  C2. A submission whose Analyze call fails (the request was rejected, the status was not
  2xx, or the body could not be read) leaves the draft, the item list and the stats as they
  were, and issues no request but the Analyze request itself: no List and no Stats request.
\<close>

theorem analyzeTweet_failure_frame:
  assumes "trim (tweet s) \<noteq> []" and "length (tweet s) \<le> 280"
    and "\<not> analyze_succeeded out"
  shows "tweet (analyzeTweet out s) = tweet s \<and>
         tweets (analyzeTweet out s) = tweets s \<and>
         stats (analyzeTweet out s) = stats s \<and>
         calls (analyzeTweet out s) = calls s @ [POST_analyze (tweet s)] \<and>
         count_list (calls (analyzeTweet out s)) GET_tweets = count_list (calls s) GET_tweets \<and>
         count_list (calls (analyzeTweet out s)) GET_stats = count_list (calls s) GET_stats"
  using assms
  by (simp add: analyzeTweet_valid analyzeTweet_resume_failure_frame)

theorem analyzeTweet_failure_frame_witness:
  "\<not> analyze_succeeded (Responded False (Some (JObj []))) \<and>
   tweet (analyzeTweet (Responded False (Some (JObj []))) (init\<lparr>tweet := js_lit ''Great day!''\<rparr>)) = js_lit ''Great day!'' \<and>
   tweets (analyzeTweet (Responded False (Some (JObj []))) (init\<lparr>tweet := js_lit ''Great day!''\<rparr>)) = tweets init \<and>
   stats (analyzeTweet (Responded False (Some (JObj []))) (init\<lparr>tweet := js_lit ''Great day!''\<rparr>)) = stats init \<and>
   calls (analyzeTweet (Responded False (Some (JObj []))) (init\<lparr>tweet := js_lit ''Great day!''\<rparr>))
     = calls init @ [POST_analyze (js_lit ''Great day!'')]"
proof -
  have failed: "\<not> analyze_succeeded (Responded False (Some (JObj [])))"
    by simp
  from failed analyzeTweet_failure_frame [OF great_day_valid failed] show ?thesis
    by simp
qed

section \<open>Validation\<close>

text \<open>
  C3. When the trimmed draft has length zero, analyzeTweet returns before any request:
  it sets the error to the empty-input message and changes nothing else.
\<close>

theorem empty_draft_rejected:
  assumes "length (trim (tweet s)) = 0"
  shows "analyzeTweet_call s =
           Returned (s\<lparr>error := JStr (js_lit ''Please enter a tweet to analyze'')\<rparr>) \<and>
         error (analyzeTweet out s) = JStr (js_lit ''Please enter a tweet to analyze'') \<and>
         calls (analyzeTweet out s) = calls s"
  using assms by (simp add: analyzeTweet_def analyzeTweet_call_def)

theorem empty_draft_rejected_witness:
  "length (trim (tweet (init\<lparr>tweet := js_lit ''   ''\<rparr>))) = 0 \<and>
   analyzeTweet_call (init\<lparr>tweet := js_lit ''   ''\<rparr>) =
     Returned (init\<lparr>tweet := js_lit ''   '',
                    error := JStr (js_lit ''Please enter a tweet to analyze'')\<rparr>) \<and>
   calls (analyzeTweet Rejected (init\<lparr>tweet := js_lit ''   ''\<rparr>)) = calls init"
proof -
  have blank: "length (trim (tweet (init\<lparr>tweet := js_lit ''   ''\<rparr>))) = 0"
    by (simp add: trim_def js_lit_def is_white_space_def)
  from blank empty_draft_rejected [OF blank, of Rejected] show ?thesis
    by simp
qed

text \<open>
  C4, as the code has it. When the draft is longer than 280 code units and is not all
  white space, analyzeTweet returns before any request: it sets the error to the length
  message and changes nothing else. (A draft of white space only gets the empty-input
  message, whatever its length: the empty-input test comes first.)
\<close>

theorem long_draft_rejected:
  assumes "280 < length (tweet s)" and "trim (tweet s) \<noteq> []"
  shows "analyzeTweet_call s =
           Returned (s\<lparr>error := JStr (js_lit ''Tweet must be 280 characters or less'')\<rparr>) \<and>
         error (analyzeTweet out s) = JStr (js_lit ''Tweet must be 280 characters or less'') \<and>
         calls (analyzeTweet out s) = calls s"
  using assms by (simp add: analyzeTweet_def analyzeTweet_call_def)

theorem long_draft_rejected_witness:
  "280 < length (tweet (init\<lparr>tweet := replicate 281 0x61\<rparr>)) \<and>
   trim (tweet (init\<lparr>tweet := replicate 281 0x61\<rparr>)) \<noteq> [] \<and>
   error (analyzeTweet Rejected (init\<lparr>tweet := replicate 281 0x61\<rparr>))
     = JStr (js_lit ''Tweet must be 280 characters or less'') \<and>
   calls (analyzeTweet Rejected (init\<lparr>tweet := replicate 281 0x61\<rparr>)) = calls init"
proof -
  have long: "280 < length (tweet (init\<lparr>tweet := replicate 281 0x61\<rparr>))"
    by simp
  have inked: "trim (tweet (init\<lparr>tweet := replicate 281 0x61\<rparr>)) \<noteq> []"
    by (simp add: trim_Nil_iff is_white_space_def)
  from long inked long_draft_rejected [OF long inked, of Rejected] show ?thesis
    by simp
qed

text \<open>
  C4 as stated fails on a draft of 281 spaces: it is longer than 280, and the error set
  is the empty-input message, not the length message.
\<close>

theorem long_blank_draft_gets_empty_message:
  "280 < length (tweet (init\<lparr>tweet := replicate 281 0x20\<rparr>)) \<and>
   error (analyzeTweet Rejected (init\<lparr>tweet := replicate 281 0x20\<rparr>))
     = JStr (js_lit ''Please enter a tweet to analyze'') \<and>
   error (analyzeTweet Rejected (init\<lparr>tweet := replicate 281 0x20\<rparr>))
     \<noteq> JStr (js_lit ''Tweet must be 280 characters or less'')"
  by (simp add: analyzeTweet_invalid_empty trim_Nil_iff is_white_space_def message_distinct)

text \<open>
  C5. When the trimmed draft has at least one code unit and the draft at most 280,
  analyzeTweet sets loading to true, sets the error to the empty string, issues one
  request, the Analyze request carrying the draft as it is, and waits for the answer.
\<close>

theorem valid_draft_submitted:
  assumes "1 \<le> length (trim (tweet s))" and "length (tweet s) \<le> 280"
  shows "analyzeTweet_call s =
           Awaiting (s\<lparr>loading := True, error := JStr [],
                       calls := calls s @ [POST_analyze (tweet s)]\<rparr>)"
proof -
  from assms(1) have "trim (tweet s) \<noteq> []" by auto
  with assms(2) show ?thesis by (simp add: analyzeTweet_call_def)
qed

theorem valid_draft_submitted_witness:
  "1 \<le> length (trim (tweet (init\<lparr>tweet := js_lit ''Great day!''\<rparr>))) \<and> length (tweet (init\<lparr>tweet := js_lit ''Great day!''\<rparr>)) \<le> 280 \<and>
   analyzeTweet_call (init\<lparr>tweet := js_lit ''Great day!''\<rparr>) =
     Awaiting (init\<lparr>tweet := js_lit ''Great day!'', loading := True, error := JStr [],
                    calls := calls init @ [POST_analyze (js_lit ''Great day!'')]\<rparr>)"
proof -
  have inked: "1 \<le> length (trim (tweet (init\<lparr>tweet := js_lit ''Great day!''\<rparr>)))"
    by (simp add: trim_def js_lit_def is_white_space_def)
  have short: "length (tweet (init\<lparr>tweet := js_lit ''Great day!''\<rparr>)) \<le> 280"
    by (rule great_day_valid)
  from inked short valid_draft_submitted [OF inked short] show ?thesis
    by simp
qed

text \<open>
  C10. The empty-input test comes before the length test: a draft of white space only,
  of any length, gets the empty-input message, which is not the length message, and no
  request is issued.
\<close>

theorem blank_draft_gets_empty_message:
  assumes "\<forall>c\<in>set (tweet s). is_white_space c"
  shows "analyzeTweet_call s =
           Returned (s\<lparr>error := JStr (js_lit ''Please enter a tweet to analyze'')\<rparr>) \<and>
         error (analyzeTweet out s) = JStr (js_lit ''Please enter a tweet to analyze'') \<and>
         error (analyzeTweet out s) \<noteq> JStr (js_lit ''Tweet must be 280 characters or less'') \<and>
         calls (analyzeTweet out s) = calls s"
proof -
  from assms have "trim (tweet s) = []" by (simp add: trim_Nil_iff)
  then show ?thesis
    by (simp add: analyzeTweet_def analyzeTweet_call_def message_distinct)
qed

theorem blank_draft_gets_empty_message_witness:
  "list_all is_white_space (tweet (init\<lparr>tweet := replicate 300 0x0A\<rparr>)) \<and>
   280 < length (tweet (init\<lparr>tweet := replicate 300 0x0A\<rparr>)) \<and>
   error (analyzeTweet Rejected (init\<lparr>tweet := replicate 300 0x0A\<rparr>))
     = JStr (js_lit ''Please enter a tweet to analyze'') \<and>
   error (analyzeTweet Rejected (init\<lparr>tweet := replicate 300 0x0A\<rparr>))
     \<noteq> JStr (js_lit ''Tweet must be 280 characters or less'') \<and>
   calls (analyzeTweet Rejected (init\<lparr>tweet := replicate 300 0x0A\<rparr>)) = calls init"
proof -
  have blank: "\<forall>c\<in>set (tweet (init\<lparr>tweet := replicate 300 0x0A\<rparr>)). is_white_space c"
    by (simp add: is_white_space_def)
  from blank blank_draft_gets_empty_message [OF blank, of Rejected] show ?thesis
    by (simp add: message_distinct list_all_iff)
qed

section \<open>The error shown after a failed Analyze call\<close>

text \<open>
  C6, as the code has it. After a failed Analyze call the draft is kept and loading is
  false. When the service answered with a non-2xx status and a JSON body, the error shown
  is the body's \<open>error\<close> property if that is truthy, and \<open>Failed to analyze tweet\<close>
  otherwise. When the request was rejected or the body could not be read (or is
  \<open>null\<close>), the error shown is \<open>Failed to connect to the server\<close>.
\<close>

theorem analyzeTweet_failure_message:
  assumes "trim (tweet s) \<noteq> []" and "length (tweet s) \<le> 280"
  shows "(get_prop d (js_lit ''error'') = Inr v \<longrightarrow>
            error (analyzeTweet (Responded False (Some d)) s) =
              (if truthy v then v else JStr (js_lit ''Failed to analyze tweet''))) \<and>
         (get_prop d (js_lit ''error'') = Inl e \<longrightarrow>
            error (analyzeTweet (Responded False (Some d)) s) =
              JStr (js_lit ''Failed to connect to the server'')) \<and>
         error (analyzeTweet Rejected s) = JStr (js_lit ''Failed to connect to the server'') \<and>
         error (analyzeTweet (Responded ok None) s) =
           JStr (js_lit ''Failed to connect to the server'') \<and>
         (\<not> analyze_succeeded out \<longrightarrow>
            tweet (analyzeTweet out s) = tweet s \<and> loading (analyzeTweet out s) = False)"
  using assms
  by (simp add: analyzeTweet_valid analyzeTweet_resume_failure_frame)
     (simp add: analyzeTweet_resume_def)

theorem analyzeTweet_failure_message_witness:
  "error (analyzeTweet
      (Responded False (Some (JObj [(js_lit ''error'', JStr (js_lit ''service unavailable''))])))
      (init\<lparr>tweet := js_lit ''Great day!''\<rparr>)) = JStr (js_lit ''service unavailable'') \<and>
   tweet (analyzeTweet
      (Responded False (Some (JObj [(js_lit ''error'', JStr (js_lit ''service unavailable''))])))
      (init\<lparr>tweet := js_lit ''Great day!''\<rparr>)) = js_lit ''Great day!'' \<and>
   loading (analyzeTweet
      (Responded False (Some (JObj [(js_lit ''error'', JStr (js_lit ''service unavailable''))])))
      (init\<lparr>tweet := js_lit ''Great day!''\<rparr>)) = False \<and>
   error (analyzeTweet (Responded False (Some JNull)) (init\<lparr>tweet := js_lit ''Great day!''\<rparr>))
     = JStr (js_lit ''Failed to connect to the server'')"
proof -
  let ?d = "JObj [(js_lit ''error'', JStr (js_lit ''service unavailable''))]"
  have msg: "get_prop ?d (js_lit ''error'') = Inr (JStr (js_lit ''service unavailable''))"
    by simp
  have present: "truthy (JStr (js_lit ''service unavailable''))"
    by (simp add: js_lit_def)
  have failed: "\<not> analyze_succeeded (Responded False (Some ?d))"
    by simp
  have null: "get_prop JNull (js_lit ''error'') = Inl TypeError"
    by simp
  from msg present failed
    analyzeTweet_failure_message [OF great_day_valid,
      where d = ?d and v = "JStr (js_lit ''service unavailable'')"
        and out = "Responded False (Some ?d)"]
  have first: "error (analyzeTweet (Responded False (Some ?d)) (init\<lparr>tweet := js_lit ''Great day!''\<rparr>))
        = JStr (js_lit ''service unavailable'') \<and>
      tweet (analyzeTweet (Responded False (Some ?d)) (init\<lparr>tweet := js_lit ''Great day!''\<rparr>)) = js_lit ''Great day!'' \<and>
      loading (analyzeTweet (Responded False (Some ?d)) (init\<lparr>tweet := js_lit ''Great day!''\<rparr>)) = False"
    by simp
  from null analyzeTweet_failure_message [OF great_day_valid, where d = JNull and e = TypeError]
  have second: "error (analyzeTweet (Responded False (Some JNull)) (init\<lparr>tweet := js_lit ''Great day!''\<rparr>))
        = JStr (js_lit ''Failed to connect to the server'')"
    by simp
  from first second show ?thesis by simp
qed

text \<open>
  C6 as stated fails when the request is rejected: there is no service message, and the
  error shown is \<open>Failed to connect to the server\<close>, not \<open>Failed to analyze tweet\<close>.
\<close>

theorem rejected_analyze_shows_connect_message:
  "\<not> analyze_succeeded Rejected \<and>
   error (analyzeTweet Rejected (init\<lparr>tweet := js_lit ''Great day!''\<rparr>)) = JStr (js_lit ''Failed to connect to the server'') \<and>
   error (analyzeTweet Rejected (init\<lparr>tweet := js_lit ''Great day!''\<rparr>)) \<noteq> JStr (js_lit ''Failed to analyze tweet'')"
  by (simp add: analyzeTweet_valid [OF great_day_valid] analyzeTweet_resume_def
        message_distinct)

section \<open>Deletion\<close>

text \<open>
  C7, as the code has it. A delete that succeeds issues, after the Delete request, one
  List request and one Stats request and nothing else. A delete that fails issues nothing
  more and leaves the draft, the items, the stats, the loading flag and the error as they
  were. When the request was rejected, one console line is written; when the service
  answered with a non-2xx status, nothing is logged.
\<close>

theorem deleteTweet_outcomes:
  "(delete_succeeded out \<longrightarrow>
      calls (deleteTweet i out s) = calls s @ [DELETE_tweet i, GET_tweets, GET_stats] \<and>
      view (deleteTweet i out s) = view s \<and>
      console (deleteTweet i out s) = console s) \<and>
   (\<not> delete_succeeded out \<longrightarrow>
      view (deleteTweet i out s) = view s \<and>
      calls (deleteTweet i out s) = calls s @ [DELETE_tweet i] \<and>
      console (deleteTweet i out s) =
        console s @ (if out = Rejected then [(js_lit ''Error deleting tweet:'', FetchRejected)]
                     else []))"
  by (cases out)
     (simp_all add: deleteTweet_def deleteTweet_call_def deleteTweet_resume_def view_def
        fetchTweets_call_def fetchStats_call_def console_error_def)

theorem deleteTweet_outcomes_witness:
  "calls (deleteTweet (JNum (Finite 7)) (Responded True None) init)
     = calls init @ [DELETE_tweet (JNum (Finite 7)), GET_tweets, GET_stats] \<and>
   view (deleteTweet (JNum (Finite 7)) Rejected init) = view init \<and>
   calls (deleteTweet (JNum (Finite 7)) Rejected init)
     = calls init @ [DELETE_tweet (JNum (Finite 7))] \<and>
   console (deleteTweet (JNum (Finite 7)) Rejected init)
     = console init @ [(js_lit ''Error deleting tweet:'', FetchRejected)] \<and>
   view (deleteTweet (JNum (Finite 7)) (Responded False None) init) = view init \<and>
   console (deleteTweet (JNum (Finite 7)) (Responded False None) init) = console init"
proof -
  have acked: "delete_succeeded (Responded True None)"
    by simp
  have lost: "\<not> delete_succeeded Rejected"
    by simp
  have refused: "\<not> delete_succeeded (Responded False None)"
    by simp
  from acked lost refused
    deleteTweet_outcomes [of "Responded True None" "JNum (Finite 7)" init]
    deleteTweet_outcomes [of Rejected "JNum (Finite 7)" init]
    deleteTweet_outcomes [of "Responded False None" "JNum (Finite 7)" init]
  show ?thesis by simp
qed

text \<open>
  C7 as stated fails on a non-2xx answer to the Delete request: the delete has failed and
  the console is as it was, so the failure leaves no log entry.
\<close>

theorem refused_delete_not_logged:
  "delete_succeeded (Responded False None) = False \<and>
   console (deleteTweet (JNum (Finite 7)) (Responded False None) init) = console init \<and>
   deleteTweet (JNum (Finite 7)) (Responded False None) init =
     init\<lparr>calls := calls init @ [DELETE_tweet (JNum (Finite 7))]\<rparr>"
  by (simp add: deleteTweet_def deleteTweet_call_def deleteTweet_resume_def)

section \<open>Refreshing\<close>

text \<open>
  C8, as the code has it. Handling the answer to the List request never touches the
  stats, the loading flag or the error; handling the answer to the Stats request never
  touches the items, the loading flag or the error. A failed fetch keeps its own state:
  when the request was rejected or the body could not be read (or the List body is
  \<open>null\<close>), the only change is one console line; when the service answered with a
  non-2xx status and a JSON body, nothing changes at all and nothing is logged.
\<close>

theorem refresh_failures_independent:
  "stats (fetchTweets_resume out s) = stats s \<and>
   tweets (fetchStats_resume out s) = tweets s \<and>
   loading (fetchTweets_resume out s) = loading s \<and>
   loading (fetchStats_resume out s) = loading s \<and>
   error (fetchTweets_resume out s) = error s \<and>
   error (fetchStats_resume out s) = error s \<and>
   fetchTweets_resume Rejected s =
     s\<lparr>console := console s @ [(js_lit ''Error fetching tweets:'', FetchRejected)]\<rparr> \<and>
   fetchTweets_resume (Responded ok None) s =
     s\<lparr>console := console s @ [(js_lit ''Error fetching tweets:'', JsonRejected)]\<rparr> \<and>
   fetchTweets_resume (Responded False (Some d)) s = s \<and>
   fetchTweets_resume (Responded True (Some JNull)) s =
     s\<lparr>console := console s @ [(js_lit ''Error fetching tweets:'', TypeError)]\<rparr> \<and>
   fetchStats_resume Rejected s =
     s\<lparr>console := console s @ [(js_lit ''Error fetching stats:'', FetchRejected)]\<rparr> \<and>
   fetchStats_resume (Responded ok None) s =
     s\<lparr>console := console s @ [(js_lit ''Error fetching stats:'', JsonRejected)]\<rparr> \<and>
   fetchStats_resume (Responded False (Some d)) s = s"
  by (simp add: fetchTweets_resume_frame fetchStats_resume_frame
        fetchTweets_resume_simps fetchStats_resume_simps)

text \<open>
  C8 as stated fails on a non-2xx answer with a JSON body: the fetch has failed and the
  console is as it was, for the List request and for the Stats request.
\<close>

theorem refused_fetch_not_logged:
  "console (fetchTweets_resume (Responded False (Some (JObj []))) init) = console init \<and>
   console (fetchStats_resume (Responded False (Some (JObj []))) init) = console init"
  by (simp add: fetchTweets_resume_simps fetchStats_resume_simps)

text \<open>
  C9. A second refreshAll that gets the same List and Stats answers as the first leaves
  the view (draft, items, stats, loading, error) as the first left it, in whichever order
  the answers arrive.
\<close>

theorem refreshAll_idempotent:
  "view (refreshAll o2 lo so (refreshAll o1 lo so s)) = view (refreshAll o1 lo so s)"
proof -
  let ?s1 = "refreshAll o1 lo so s"
  have "tweets ?s1 = tweets (fetchTweets_resume lo s)"
    by (rule tweets_refreshAll)
  then have t: "tweets (fetchTweets_resume lo ?s1) = tweets (fetchTweets_resume lo s)"
    by (rule fetchTweets_resume_again)
  have "stats ?s1 = stats (fetchStats_resume so s)"
    by (rule stats_refreshAll)
  then have st: "stats (fetchStats_resume so ?s1) = stats (fetchStats_resume so s)"
    by (rule fetchStats_resume_again)
  have "view (refreshAll o2 lo so ?s1) =
      (tweet ?s1, tweets (fetchTweets_resume lo ?s1), stats (fetchStats_resume so ?s1),
       loading ?s1, error ?s1)"
    by (rule view_refreshAll)
  also have "\<dots> = (tweet s, tweets (fetchTweets_resume lo s), stats (fetchStats_resume so s),
       loading s, error s)"
    by (simp add: t st refreshAll_frame)
  also have "\<dots> = view ?s1"
    by (rule view_refreshAll [symmetric])
  finally show ?thesis .
qed

end
